theory Spec2Isabelle
  imports Complex_Main
begin

section \<open>Result normalizer: \<open>process_detection_results\<close> of backend/app.py\<close>

text \<open>
  Numbers. The detector hands over arrays of binary32 floats and the report carries Python
  floats. They are modelled by the rationals they denote. \<open>np.mean\<close> belongs to numpy and
  is a parameter \<open>mean\<close> of the normalizer: it adds and divides in binary32, so its result
  is in general not the arithmetic mean. \<open>py_round2\<close> is Python's \<open>round(x, 2)\<close>: the
  nearest multiple of 1/100 of the value of the float, a tie going to the even multiple.
\<close>

definition py_round2 :: "rat \<Rightarrow> rat" where
  "py_round2 x =
     (let y = x * 100; f = \<lfloor>y\<rfloor>; d = y - of_int f
      in if d < 1 / 2 then of_int f / 100
         else if 1 / 2 < d then of_int (f + 1) / 100
         else if even f then of_int f / 100 else of_int (f + 1) / 100)"

text \<open>
  The raw detections. \<open>results\<close> is the list returned by the detector; the code reads
  \<open>results[0].boxes\<close>, which may be \<open>None\<close>, and of the boxes object its length
  \<open>len(boxes)\<close> and the attributes \<open>conf\<close>, \<open>cls\<close> and \<open>xyxy\<close>, each of which
  the code tests against \<open>None\<close>. The four are independent fields here, as the code treats
  them. A row of \<open>xyxy\<close> is the four corner coordinates of one box.
\<close>

type_synonym coords = "rat \<times> rat \<times> rat \<times> rat"

record raw_boxes =
  boxes_len :: nat
  conf :: "rat list option"
  cls :: "rat list option"
  xyxy :: "coords list option"

record result =
  boxes :: "raw_boxes option"

text \<open>
  The report. The dictionary keys \<open>confidence\<close> and \<open>class\<close> of a bounding box are the
  fields \<open>box_confidence\<close> and \<open>box_class\<close>. The severity is one of the three string
  literals \<open>'Low'\<close>, \<open>'Medium'\<close>, \<open>'High'\<close> of the source, a datatype here, and the
  dictionary \<open>recommendations\<close> over these three keys is a function on it.
\<close>

datatype severity_level = Low | Medium | High

record bounding_box =
  x1 :: rat
  y1 :: rat
  x2 :: rat
  y2 :: rat
  box_confidence :: rat
  box_class :: string

record impact =
  severity :: severity_level
  recommendation :: string

record report =
  detections :: nat
  confidence :: rat
  plastic_types :: "string list"
  bounding_boxes :: "bounding_box list"
  environmental_impact :: impact

fun severity_str :: "severity_level \<Rightarrow> string" where
  "severity_str Low = ''Low''"
| "severity_str Medium = ''Medium''"
| "severity_str High = ''High''"

fun recommendations :: "severity_level \<Rightarrow> string" where
  "recommendations High = ''Immediate cleanup required - High plastic pollution detected''"
| "recommendations Medium = ''Cleanup recommended - Moderate plastic pollution found''"
| "recommendations Low = ''Monitor area - Low level plastic pollution detected''"

text \<open>The dictionary both early returns of the source build.\<close>

definition no_plastic_report :: report where
  "no_plastic_report =
     \<lparr>detections = 0, confidence = 0, plastic_types = [], bounding_boxes = [],
      environmental_impact = \<lparr>severity = Low, recommendation = ''No plastic detected''\<rparr>\<rparr>"

text \<open>One turn of the loop \<open>for i in range(len(xyxy))\<close>: the box built at index \<open>i\<close>.\<close>

definition make_box :: "coords list \<Rightarrow> rat list \<Rightarrow> string list \<Rightarrow> nat \<Rightarrow> bounding_box" where
  "make_box xyxy_arr confidences class_names i =
     (case xyxy_arr ! i of (a, b, c, d) \<Rightarrow>
        \<lparr>x1 = a, y1 = b, x2 = c, y2 = d,
         box_confidence = (if i < length confidences then confidences ! i else 0),
         box_class = (if i < length class_names then class_names ! i else ''plastic'')\<rparr>)"

definition process_detection_results :: "(rat list \<Rightarrow> rat) \<Rightarrow> result list \<Rightarrow> report" where
  "process_detection_results mean results =
     (case results of
        [] \<Rightarrow> no_plastic_report
      | res # _ \<Rightarrow>
         (case boxes res of
            None \<Rightarrow> no_plastic_report
          | Some bx \<Rightarrow>
             if boxes_len bx = 0 then no_plastic_report
             else
               let dets = boxes_len bx;
                   confidences = (case conf bx of Some a \<Rightarrow> a | None \<Rightarrow> []);
                   classes = (case cls bx of Some a \<Rightarrow> a | None \<Rightarrow> []);
                   xyxy_arr = (case xyxy bx of Some a \<Rightarrow> a | None \<Rightarrow> []);
                   avg_confidence = (if 0 < length confidences then mean confidences else 0);
                   class_names = replicate (length classes) ''plastic'';
                   bbs = map (make_box xyxy_arr confidences class_names) [0..<length xyxy_arr];
                   sev = (if 5 < dets then High else if 1 < dets then Medium else Low)
               in \<lparr>detections = dets,
                   confidence = py_round2 avg_confidence,
                   plastic_types = remdups class_names,
                   bounding_boxes = bbs,
                   environmental_impact =
                     \<lparr>severity = sev, recommendation = recommendations sev\<rparr>\<rparr>))"


subsection \<open>A mean in binary32 arithmetic\<close>

text \<open>
  Rounding of a rational to IEEE binary32, to nearest with ties to even: a significand of 24
  bits and a least spacing of \<open>2\<^sup>-\<^sup>1\<^sup>4\<^sup>9\<close>, overflow left out. \<open>float32_ulp a\<close> is the
  spacing of the binary32 numbers around the magnitude \<open>a\<close>, that is \<open>2\<^sup>1\<^sup>0\<^sup>4 / 2\<^sup>j\<close> for
  the greatest \<open>j \<le> 253\<close> with \<open>a < 2\<^sup>1\<^sup>2\<^sup>8 / 2\<^sup>j\<close>, found bit by bit.
\<close>

definition round_half_even :: "rat \<Rightarrow> int" where
  "round_half_even y =
     (let f = \<lfloor>y\<rfloor>; d = y - of_int f
      in if d < 1 / 2 then f else if 1 / 2 < d then f + 1 else if even f then f else f + 1)"

definition float32_ulp :: "rat \<Rightarrow> rat" where
  "float32_ulp a =
     2 ^ 104 / 2 ^ foldl (\<lambda>j k. if j + k \<le> 253 \<and> a * 2 ^ (j + k) < 2 ^ 128 then j + k else j)
                    0 [128, 64, 32, 16, 8, 4, 2, 1]"

definition float32_round :: "rat \<Rightarrow> rat" where
  "float32_round x =
     (let u = float32_ulp \<bar>x\<bar> in of_int (round_half_even (x / u)) * u)"

text \<open>
  The mean of an array of binary32 numbers with every addition and the division rounded to
  binary32, the numbers added from left to right. With one or two numbers every order of
  addition gives this value; it stands in for \<open>np.mean\<close> at the concrete inputs below.
\<close>

definition float32_mean :: "rat list \<Rightarrow> rat" where
  "float32_mean xs =
     float32_round (foldl (\<lambda>s x. float32_round (s + x)) 0 xs / of_nat (length xs))"


section \<open>Request orchestrator: the Flask handlers of backend/app.py\<close>

subsection \<open>The request, the response and the world around a handler\<close>

text \<open>
  An uploaded file is its client-side name and its bytes. \<open>request.files\<close> and
  \<open>request.form\<close> are multi-dictionaries, here association lists in submission order:
  \<open>key in d\<close> and \<open>d[key]\<close> look at the first entry under the key, \<open>getlist\<close>
  returns every entry under it.
\<close>

record file_storage =
  filename :: string
  content :: string

record request =
  files :: "(string \<times> file_storage) list"
  form :: "(string \<times> string) list"

definition getlist :: "string \<Rightarrow> (string \<times> 'a) list \<Rightarrow> 'a list" where
  "getlist k d = map snd (filter (\<lambda>kv. fst kv = k) d)"

text \<open>
  An exception is the message \<open>str(e)\<close> gives; the handlers read nothing else of it.
\<close>

datatype exn = Exception string

fun str_exn :: "exn \<Rightarrow> string" where
  "str_exn (Exception m) = m"

text \<open>
  The disk holds the two directories the module creates at start-up. The upload directory
  maps a file name to its bytes. The results directory maps a run name to the entries of
  that run's directory, in the order \<open>os.listdir\<close> returns them, each with its bytes.
  Both directories are taken to exist and to hold regular files only, so the file
  operations of the handlers do not fail in this model.
\<close>

record disk =
  upload_folder :: "string \<rightharpoonup> string"
  results_folder :: "string \<rightharpoonup> (string \<times> string) list"

text \<open>
  The detector is the external model object: \<open>model.predict\<close> receives its keyword
  arguments, may read and write the disk, and either raises or returns the results list.
  The global \<open>model\<close> is \<open>None\<close> or a detector. The world of a handler is the disk
  together with the list of calls made to \<open>model.predict\<close> so far, oldest first.
\<close>

record predict_args =
  p_source :: string
  p_conf :: rat
  p_save :: bool
  p_project :: string
  p_name :: string
  p_exist_ok :: bool

type_synonym detector = "predict_args \<Rightarrow> disk \<Rightarrow> (exn + result list) \<times> disk"

record world =
  fs :: disk
  predict_calls :: "predict_args list"

definition model_predict :: "detector \<Rightarrow> predict_args \<Rightarrow> world \<Rightarrow> (exn + result list) \<times> world" where
  "model_predict m args w =
     (case m args (fs w) of
        (r, d) \<Rightarrow> (r, \<lparr>fs = d, predict_calls = predict_calls w @ [args]\<rparr>))"

text \<open>
  What a handler takes from outside the repository: the string of a fresh \<open>uuid.uuid4()\<close>,
  the string \<open>datetime.now().isoformat()\<close>, the builtin \<open>float\<close> on a string, which
  raises on a string that is no float, \<open>base64.b64encode\<close> followed by \<open>decode\<close>, and
  numpy's \<open>np.mean\<close> on an array of binary32 numbers.
\<close>

record env =
  uuid4 :: string
  now_isoformat :: string
  py_float :: "string \<Rightarrow> exn + rat"
  b64encode :: "string \<Rightarrow> string"
  np_mean :: "rat list \<Rightarrow> rat"

text \<open>
  The JSON bodies. The keys \<open>success\<close>, \<open>file_id\<close>, \<open>filename\<close>, \<open>timestamp\<close> of the
  single-image response are the fields prefixed \<open>d_\<close>; the keys \<open>filename\<close>,
  \<open>file_id\<close>, \<open>results\<close> of a batch entry are prefixed \<open>i_\<close>; the keys \<open>success\<close>,
  \<open>results\<close>, \<open>timestamp\<close> of the batch response are prefixed \<open>b_\<close>. The body
  \<open>{'error': msg}\<close> is \<open>Error_body msg\<close>. A handler that returns a body alone answers
  with status 200.
\<close>

record detect_response =
  d_success :: bool
  d_file_id :: string
  d_filename :: string
  d_timestamp :: string
  detection_results :: report
  annotated_image :: "string option"

record batch_item =
  i_filename :: string
  i_file_id :: string
  i_results :: report

record batch_response =
  b_success :: bool
  batch_id :: string
  processed_images :: nat
  b_results :: "batch_item list"
  b_timestamp :: string

datatype body =
  Error_body string
| Detect_body detect_response
| Batch_body batch_response

record response =
  status :: nat
  body :: body

subsection \<open>Paths and file operations\<close>

definition UPLOAD_FOLDER :: string where
  "UPLOAD_FOLDER = ''uploads''"

definition RESULTS_FOLDER :: string where
  "RESULTS_FOLDER = ''results''"

definition path_join :: "string \<Rightarrow> string \<Rightarrow> string" where
  "path_join a b = a @ ''/'' @ b"

text \<open>\<open>file.save(filepath)\<close> for a path in the upload directory.\<close>

definition save_upload :: "string \<Rightarrow> string \<Rightarrow> world \<Rightarrow> world" where
  "save_upload name bytes w =
     w\<lparr>fs := (fs w)\<lparr>upload_folder := (upload_folder (fs w))(name \<mapsto> bytes)\<rparr>\<rparr>"

text \<open>\<open>if os.path.exists(filepath): os.remove(filepath)\<close> for such a path.\<close>

definition cleanup_upload :: "string \<Rightarrow> world \<Rightarrow> world" where
  "cleanup_upload name w =
     (if upload_folder (fs w) name \<noteq> None
      then w\<lparr>fs := (fs w)\<lparr>upload_folder := (upload_folder (fs w))(name := None)\<rparr>\<rparr>
      else w)"

definition lower_char :: "char \<Rightarrow> char" where
  "lower_char c =
     (let n = of_char c :: nat in if 65 \<le> n \<and> n \<le> 90 then char_of (n + 32) else c)"

definition endswith :: "string \<Rightarrow> string \<Rightarrow> bool" where
  "endswith s suf = (length suf \<le> length s \<and> drop (length s - length suf) s = suf)"

definition is_image_name :: "string \<Rightarrow> bool" where
  "is_image_name f =
     (let l = map lower_char f
      in endswith l ''.jpg'' \<or> endswith l ''.jpeg'' \<or> endswith l ''.png'')"

text \<open>The loop over \<open>os.listdir(result_dir)\<close> that stops at the first image name.\<close>

fun first_image :: "string list \<Rightarrow> string option" where
  "first_image [] = None"
| "first_image (f # rest) = (if is_image_name f then Some f else first_image rest)"

text \<open>
  The annotated image of a run, base64-encoded: \<open>None\<close> when the run's directory does
  not exist or lists no image name.
\<close>

definition annotated_image_of :: "env \<Rightarrow> string \<Rightarrow> world \<Rightarrow> string option" where
  "annotated_image_of e run w =
     (case results_folder (fs w) run of
        None \<Rightarrow> None
      | Some entries \<Rightarrow>
         (case first_image (map fst entries) of
            None \<Rightarrow> None
          | Some f \<Rightarrow>
             (case map_of entries f of
                None \<Rightarrow> None
              | Some bytes \<Rightarrow> Some (b64encode e bytes))))"

subsection \<open>\<open>detect_plastic\<close>: POST /api/detect\<close>

text \<open>
  The handler's body is one \<open>try\<close> block whose \<open>except Exception\<close> answers 500 with the
  message prefixed. Each call that can raise is a branch that ends in \<open>detection_failed\<close>,
  with the world as it is at that moment. Printing to the console is left out.
\<close>

definition error_response :: "nat \<Rightarrow> string \<Rightarrow> response" where
  "error_response code msg = \<lparr>status = code, body = Error_body msg\<rparr>"

definition detection_failed :: "exn \<Rightarrow> response" where
  "detection_failed e = error_response 500 (''Detection failed: '' @ str_exn e)"

definition confidence_threshold_of :: "env \<Rightarrow> request \<Rightarrow> exn + rat" where
  "confidence_threshold_of e req =
     (case map_of (form req) ''confidence'' of
        None \<Rightarrow> Inr (1 / 4)
      | Some s \<Rightarrow> py_float e s)"

definition detect_plastic ::
  "env \<Rightarrow> detector option \<Rightarrow> request \<Rightarrow> world \<Rightarrow> response \<times> world" where
  "detect_plastic e model req w =
     (case model of
        None \<Rightarrow> (error_response 500 ''Model not loaded'', w)
      | Some m \<Rightarrow>
         (case map_of (files req) ''image'' of
            None \<Rightarrow> (error_response 400 ''No image file provided'', w)
          | Some file \<Rightarrow>
             if filename file = [] then (error_response 400 ''No image file selected'', w)
             else
               let file_id = uuid4 e;
                   fname = file_id @ ''.jpg'';
                   filepath = path_join UPLOAD_FOLDER fname;
                   w1 = save_upload fname (content file) w
               in (case confidence_threshold_of e req of
                     Inl ex \<Rightarrow> (detection_failed ex, w1)
                   | Inr confidence_threshold \<Rightarrow>
                      (case model_predict m
                              \<lparr>p_source = filepath, p_conf = confidence_threshold,
                               p_save = True, p_project = RESULTS_FOLDER,
                               p_name = file_id, p_exist_ok = True\<rparr> w1 of
                         (Inl ex, w2) \<Rightarrow> (detection_failed ex, w2)
                       | (Inr results, w2) \<Rightarrow>
                          let detection_data = process_detection_results (np_mean e) results;
                              annotated_image_b64 = annotated_image_of e file_id w2;
                              resp = \<lparr>d_success = True, d_file_id = file_id,
                                      d_filename = filename file,
                                      d_timestamp = now_isoformat e,
                                      detection_results = detection_data,
                                      annotated_image = annotated_image_b64\<rparr>
                          in (\<lparr>status = 200, body = Detect_body resp\<rparr>,
                              cleanup_upload fname w2)))))"

subsection \<open>\<open>batch_detect\<close>: POST /api/batch-detect\<close>

definition digit_char :: "nat \<Rightarrow> char" where
  "digit_char d = char_of (48 + d)"

fun str_nat :: "nat \<Rightarrow> string" where
  "str_nat n = (if n < 10 then [digit_char n] else str_nat (n div 10) @ [digit_char (n mod 10)])"

declare str_nat.simps [simp del]

text \<open>
  The loop \<open>for i, file in enumerate(files)\<close> over the remaining pairs, with
  \<open>batch_results\<close> and the world as they stand. An exception raised by the detector leaves
  the loop with the world of that moment.
\<close>

fun batch_loop ::
  "env \<Rightarrow> detector \<Rightarrow> string \<Rightarrow> (nat \<times> file_storage) list \<Rightarrow> batch_item list \<Rightarrow> world
   \<Rightarrow> (exn + batch_item list) \<times> world" where
  "batch_loop e m bid [] batch_results w = (Inr batch_results, w)"
| "batch_loop e m bid ((i, file) # rest) batch_results w =
     (if filename file = [] then batch_loop e m bid rest batch_results w
      else
        let file_id = bid @ ''_'' @ str_nat i;
            fname = file_id @ ''.jpg'';
            filepath = path_join UPLOAD_FOLDER fname;
            w1 = save_upload fname (content file) w
        in (case model_predict m
                  \<lparr>p_source = filepath, p_conf = 1 / 4, p_save = True,
                   p_project = RESULTS_FOLDER, p_name = file_id, p_exist_ok = True\<rparr> w1 of
              (Inl ex, w2) \<Rightarrow> (Inl ex, w2)
            | (Inr results, w2) \<Rightarrow>
               let detection_data = process_detection_results (np_mean e) results;
                   item = \<lparr>i_filename = filename file, i_file_id = file_id,
                           i_results = detection_data\<rparr>
               in batch_loop e m bid rest (batch_results @ [item]) (cleanup_upload fname w2)))"

text \<open>
  Names for what one turn of the loop computes at index \<open>i\<close>: the identifier
  \<open>f"{batch_id}_{i}"\<close> and the keyword arguments of its call to \<open>model.predict\<close>; and
  the pairs of \<open>enumerate(files)\<close> that the loop does not skip.
\<close>

definition batch_file_id :: "string \<Rightarrow> nat \<Rightarrow> string" where
  "batch_file_id bid i = bid @ ''_'' @ str_nat i"

definition batch_predict_args :: "string \<Rightarrow> nat \<Rightarrow> predict_args" where
  "batch_predict_args bid i =
     \<lparr>p_source = path_join UPLOAD_FOLDER (batch_file_id bid i @ ''.jpg''), p_conf = 1 / 4,
      p_save = True, p_project = RESULTS_FOLDER, p_name = batch_file_id bid i,
      p_exist_ok = True\<rparr>"

definition named_entries :: "(nat \<times> file_storage) list \<Rightarrow> (nat \<times> file_storage) list" where
  "named_entries xs = filter (\<lambda>p. filename (snd p) \<noteq> []) xs"

text \<open>
  The per-image steps of a batch as the specification lists them, for one entry that is not
  skipped: stage the file, invoke the detector with the fixed threshold, normalize its reply,
  delete the staged input. \<open>process_images\<close> runs them over a list of entries in order and
  stops at the first failure.
\<close>

definition process_image ::
  "env \<Rightarrow> detector \<Rightarrow> string \<Rightarrow> nat \<times> file_storage \<Rightarrow> world \<Rightarrow> (exn + batch_item) \<times> world" where
  "process_image e m bid p w =
     (let staged = batch_file_id bid (fst p) @ ''.jpg''
      in case model_predict m (batch_predict_args bid (fst p))
                (save_upload staged (content (snd p)) w) of
           (Inl ex, w2) \<Rightarrow> (Inl ex, w2)
         | (Inr reply, w2) \<Rightarrow>
             (Inr \<lparr>i_filename = filename (snd p), i_file_id = batch_file_id bid (fst p),
                   i_results = process_detection_results (np_mean e) reply\<rparr>,
              cleanup_upload staged w2))"

fun process_images ::
  "env \<Rightarrow> detector \<Rightarrow> string \<Rightarrow> (nat \<times> file_storage) list \<Rightarrow> world
   \<Rightarrow> (exn + batch_item list) \<times> world" where
  "process_images e m bid [] w = (Inr [], w)"
| "process_images e m bid (p # ps) w =
     (case process_image e m bid p w of
        (Inl ex, w1) \<Rightarrow> (Inl ex, w1)
      | (Inr item, w1) \<Rightarrow>
         (case process_images e m bid ps w1 of
            (Inl ex, w2) \<Rightarrow> (Inl ex, w2)
          | (Inr items, w2) \<Rightarrow> (Inr (item # items), w2)))"

definition batch_detect ::
  "env \<Rightarrow> detector option \<Rightarrow> request \<Rightarrow> world \<Rightarrow> response \<times> world" where
  "batch_detect e model req w =
     (case model of
        None \<Rightarrow> (error_response 500 ''Model not loaded'', w)
      | Some m \<Rightarrow>
         let fls = getlist ''images'' (files req)
         in if fls = [] then (error_response 400 ''No image files provided'', w)
            else
              (case batch_loop e m (uuid4 e) (enumerate 0 fls) [] w of
                 (Inl ex, w') \<Rightarrow>
                   (error_response 500 (''Batch processing failed: '' @ str_exn ex), w')
               | (Inr batch_results, w') \<Rightarrow>
                   (\<lparr>status = 200,
                     body = Batch_body
                       \<lparr>b_success = True, batch_id = uuid4 e,
                        processed_images = length batch_results,
                        b_results = batch_results,
                        b_timestamp = now_isoformat e\<rparr>\<rparr>, w')))"

section \<open>Concrete inputs\<close>

text \<open>
  Raw detections in which the three arrays are present and as long as \<open>len(boxes)\<close>,
  built from the list of confidences.
\<close>

definition results_of_conf :: "rat list \<Rightarrow> result list" where
  "results_of_conf cs =
     [\<lparr>boxes = Some \<lparr>boxes_len = length cs, conf = Some cs,
                      cls = Some (replicate (length cs) 0),
                      xyxy = Some (replicate (length cs) (0, 0, 1, 1))\<rparr>\<rparr>]"




text \<open>
  An environment whose \<open>float\<close> knows the strings \<open>0.5\<close> and \<open>0.25\<close> and raises on
  every other string, whose base64 encoder is the identity and whose mean is the binary32
  mean; it stands in for the library functions at the concrete runs below.
\<close>

definition example_env :: env where
  "example_env =
     \<lparr>uuid4 = ''id1'', now_isoformat = ''2024-01-01T00:00:00'',
      py_float = (\<lambda>s. if s = ''0.5'' then Inr (1 / 2)
                       else if s = ''0.25'' then Inr (1 / 4)
                       else Inl (Exception (''could not convert string to float: '' @ s))),
      b64encode = (\<lambda>bytes. bytes),
      np_mean = float32_mean\<rparr>"

definition empty_world :: world where
  "empty_world =
     \<lparr>fs = \<lparr>upload_folder = Map.empty, results_folder = Map.empty\<rparr>, predict_calls = []\<rparr>"

text \<open>A detector that finds three boxes in every image and writes nothing.\<close>

definition three_box_detector :: detector where
  "three_box_detector args d = (Inr (results_of_conf [2 / 5, 3 / 5, 4 / 5]), d)"

text \<open>A detector that raises on every image.\<close>

definition failing_detector :: detector where
  "failing_detector args d = (Inl (Exception ''cannot identify image file''), d)"

definition image_request :: request where
  "image_request =
     \<lparr>files = [(''image'', \<lparr>filename = ''river.jpg'', content = ''JPEGDATA''\<rparr>)],
      form = []\<rparr>"

definition bad_confidence_request :: request where
  "bad_confidence_request =
     \<lparr>files = [(''image'', \<lparr>filename = ''river.jpg'', content = ''JPEGDATA''\<rparr>)],
      form = [(''confidence'', ''high'')]\<rparr>"

definition no_image_request :: request where
  "no_image_request = \<lparr>files = [], form = []\<rparr>"

definition unnamed_image_request :: request where
  "unnamed_image_request =
     \<lparr>files = [(''image'', \<lparr>filename = [], content = []\<rparr>)], form = []\<rparr>"

text \<open>Two named images around an entry with an empty file name, and a threshold.\<close>

definition batch_request :: request where
  "batch_request =
     \<lparr>files = [(''images'', \<lparr>filename = ''a.jpg'', content = ''AAA''\<rparr>),
               (''images'', \<lparr>filename = [], content = []\<rparr>),
               (''images'', \<lparr>filename = ''b.jpg'', content = ''BBB''\<rparr>)],
      form = [(''confidence'', ''0.5'')]\<rparr>"

definition unnamed_batch_request :: request where
  "unnamed_batch_request =
     \<lparr>files = [(''images'', \<lparr>filename = [], content = []\<rparr>),
               (''images'', \<lparr>filename = [], content = []\<rparr>)],
      form = []\<rparr>"

section \<open>Properties of the result normalizer\<close>

subsection \<open>Rounding\<close>

lemma py_round2_grid: "\<exists>k::int. py_round2 x = of_int k / 100"
  unfolding py_round2_def Let_def by (auto simp del: of_int_add)

lemma py_round2_near: "\<bar>py_round2 x - x\<bar> \<le> 1 / 200"
proof -
  define y where "y = x * 100"
  define f where "f = \<lfloor>y\<rfloor>"
  have fl: "of_int f \<le> y" "y < of_int f + 1"
    unfolding f_def by linarith+
  have x: "x = y / 100" unfolding y_def by simp
  show ?thesis
    unfolding py_round2_def Let_def y_def[symmetric] f_def[symmetric]
    using fl by (auto simp: x abs_if field_simps)
qed


text \<open>A number closer than 1/200 to a multiple of 1/100 is rounded to that multiple.\<close>

lemma py_round2_unique:
  assumes "\<bar>x - of_int k / 100\<bar> < 1 / 200"
  shows "py_round2 x = of_int k / 100"
proof -
  obtain j :: int where j: "py_round2 x = of_int j / 100"
    using py_round2_grid by blast
  have "\<bar>of_int j / 100 - x\<bar> \<le> 1 / 200"
    using py_round2_near [of x] unfolding j .
  with assms have "of_int j - of_int k < (1::rat)" "of_int k - of_int j < (1::rat)"
    by linarith+
  then have "of_int (j - k) < (of_int 1 :: rat)" "of_int (k - j) < (of_int 1 :: rat)"
    by simp_all
  then have "j - k < 1" "k - j < 1"
    by (simp_all only: of_int_less_iff)
  then have "j = k" by linarith
  with j show ?thesis by simp
qed

lemma floor_numeral_div:
  "\<lfloor>numeral a / numeral b :: rat\<rfloor> = numeral a div numeral b"
  using floor_divide_of_int_eq [of "numeral a" "numeral b", where ?'a = rat] by simp

lemma py_round2_values:
  "py_round2 (1 / 8) = 12 / 100"
  "py_round2 (5 / 8) = 62 / 100"
  "py_round2 (3 / 8) = 38 / 100"
  "py_round2 (3 / 4) = 75 / 100"
  "py_round2 (1 / 2) = 50 / 100"
  "py_round2 (16777217 / 134217728) = 13 / 100"
  "py_round2 (20971521 / 33554432) = 63 / 100"
  "py_round2 (9507089 / 16777216) = 57 / 100"
  "py_round2 (10066329 / 16777216) = 60 / 100"
  "py_round2 (17 / 30) = 57 / 100"
  "py_round2 (3 / 5) = 60 / 100"
  by (simp_all add: py_round2_def Let_def floor_numeral_div)

subsection \<open>Values of the binary32 mean\<close>

lemma float32_round_values:
  "float32_round (1 / 8) = 1 / 8"
  "float32_round (1 / 4) = 1 / 4"
  "float32_round (16777217 / 67108864) = 1 / 4"
  "float32_round (3 / 10) = 5033165 / 16777216"
  "float32_round (3 / 8) = 3 / 8"
  "float32_round (2 / 5) = 13421773 / 33554432"
  "float32_round (1 / 2) = 1 / 2"
  "float32_round (7130317 / 12582912) = 9507089 / 16777216"
  "float32_round (7549747 / 12582912) = 10066329 / 16777216"
  "float32_round (5 / 8) = 5 / 8"
  "float32_round (3 / 4) = 3 / 4"
  "float32_round (13421773 / 16777216) = 13421773 / 16777216"
  "float32_round (167772161 / 167772160) = 1"
  "float32_round (20971521 / 16777216) = 5 / 4"
  "float32_round (3 / 2) = 3 / 2"
  "float32_round (142606337 / 83886080) = 7130317 / 4194304"
  "float32_round (9 / 5) = 7549747 / 4194304"
  by (simp_all add: float32_round_def float32_ulp_def round_half_even_def Let_def
      floor_numeral_div)

lemma float32_mean_values:
  "float32_mean [1 / 8, 8388609 / 67108864] = 1 / 8"
  "float32_mean [5 / 8, 10485761 / 16777216] = 5 / 8"
  "float32_mean [3 / 4] = 3 / 4"
  "float32_mean [3 / 4, 0] = 3 / 8"
  "float32_mean [3 / 10, 1 / 2, 9 / 10] = 9507089 / 16777216"
  "float32_mean [2 / 5, 3 / 5, 4 / 5] = 10066329 / 16777216"
  "float32_mean [1 / 4, 1 / 2, 3 / 4] = 1 / 2"
  by (simp_all add: float32_mean_def float32_round_values)

subsection \<open>The two shapes of a report\<close>

lemma pdr_Nil: "process_detection_results mean [] = no_plastic_report"
  by (simp add: process_detection_results_def)

lemma pdr_no_boxes:
  "boxes res = None \<Longrightarrow> process_detection_results mean (res # rest) = no_plastic_report"
  by (simp add: process_detection_results_def)

lemma pdr_empty_boxes:
  "boxes res = Some bx \<Longrightarrow> boxes_len bx = 0 \<Longrightarrow>
   process_detection_results mean (res # rest) = no_plastic_report"
  by (simp add: process_detection_results_def)

lemma pdr_detected:
  assumes "boxes res = Some bx" and "0 < boxes_len bx"
  shows "process_detection_results mean (res # rest) =
     \<lparr>detections = boxes_len bx,
      confidence = py_round2 (case conf bx of None \<Rightarrow> 0
                              | Some cs \<Rightarrow> if cs = [] then 0 else mean cs),
      plastic_types = remdups (replicate (case cls bx of None \<Rightarrow> 0 | Some a \<Rightarrow> length a)
                                 ''plastic''),
      bounding_boxes =
        (case xyxy bx of None \<Rightarrow> []
         | Some rows \<Rightarrow>
            map (make_box rows (case conf bx of None \<Rightarrow> [] | Some cs \<Rightarrow> cs)
                   (replicate (case cls bx of None \<Rightarrow> 0 | Some a \<Rightarrow> length a) ''plastic''))
              [0..<length rows]),
      environmental_impact =
        \<lparr>severity = (if 5 < boxes_len bx then High else if 1 < boxes_len bx then Medium else Low),
         recommendation =
           recommendations
             (if 5 < boxes_len bx then High else if 1 < boxes_len bx then Medium else Low)\<rparr>\<rparr>"
  using assms
  by (simp add: process_detection_results_def Let_def split: option.splits)

text \<open>Every input falls under one of the two shapes.\<close>

lemma pdr_cases:
  "process_detection_results mean rs = no_plastic_report \<or>
   (\<exists>res rest bx. rs = res # rest \<and> boxes res = Some bx \<and> 0 < boxes_len bx)"
proof (cases rs)
  case Nil
  then show ?thesis by (simp add: pdr_Nil)
next
  case (Cons res rest)
  show ?thesis
  proof (cases "boxes res")
    case None
    with Cons show ?thesis by (simp add: pdr_no_boxes)
  next
    case (Some bx)
    with Cons show ?thesis
      by (cases "boxes_len bx = 0") (simp_all add: pdr_empty_boxes)
  qed
qed





lemma detections_results_of_conf:
  "detections (process_detection_results mean (results_of_conf cs)) = length cs"
  by (cases "cs = []")
    (simp_all add: results_of_conf_def pdr_detected pdr_empty_boxes no_plastic_report_def)

lemma severity_results_of_conf:
  "severity (environmental_impact (process_detection_results mean (results_of_conf cs))) =
     (if 5 < length cs then High else if 1 < length cs then Medium else Low)"
  by (cases "cs = []")
    (simp_all add: results_of_conf_def pdr_detected pdr_empty_boxes no_plastic_report_def)

lemma confidence_results_of_conf:
  "cs \<noteq> [] \<Longrightarrow>
   confidence (process_detection_results mean (results_of_conf cs)) = py_round2 (mean cs)"
  by (simp add: results_of_conf_def pdr_detected)


lemma results_of_conf_shape:
  "cs \<noteq> [] \<Longrightarrow>
   \<exists>res rest bx. results_of_conf cs = res # rest \<and> boxes res = Some bx \<and>
     0 < boxes_len bx \<and> conf bx = Some cs"
  by (simp add: results_of_conf_def)

subsection \<open>Severity, recommendation and the empty report\<close>

text \<open>
  Claim C1. For every report produced by \<open>process_detection_results\<close> with detection
  count \<open>c\<close>, the severity is High when \<open>c > 5\<close>, Medium when \<open>1 < c \<le> 5\<close> and Low
  when \<open>c \<le> 1\<close>.
\<close>

theorem severity_by_count:
  "(5 < detections (process_detection_results mean rs) \<longrightarrow>
      severity (environmental_impact (process_detection_results mean rs)) = High) \<and>
   (1 < detections (process_detection_results mean rs) \<and>
    detections (process_detection_results mean rs) \<le> 5 \<longrightarrow>
      severity (environmental_impact (process_detection_results mean rs)) = Medium) \<and>
   (detections (process_detection_results mean rs) \<le> 1 \<longrightarrow>
      severity (environmental_impact (process_detection_results mean rs)) = Low)"
  using pdr_cases [of mean rs]
  by (elim disjE exE conjE) (simp_all add: no_plastic_report_def pdr_detected)

text \<open>The boundary counts 1, 2, 5 and 6.\<close>

theorem severity_by_count_witness:
  "severity_str (severity (environmental_impact
      (process_detection_results float32_mean (results_of_conf [1 / 2])))) = ''Low'' \<and>
   severity_str (severity (environmental_impact
      (process_detection_results float32_mean (results_of_conf [1 / 2, 1 / 2])))) =
     ''Medium'' \<and>
   severity_str (severity (environmental_impact
      (process_detection_results float32_mean
         (results_of_conf [1 / 2, 1 / 2, 1 / 2, 1 / 2, 1 / 2])))) = ''Medium'' \<and>
   severity_str (severity (environmental_impact
      (process_detection_results float32_mean
         (results_of_conf [1 / 2, 1 / 2, 1 / 2, 1 / 2, 1 / 2, 1 / 2])))) = ''High''"
  using severity_by_count [of float32_mean "results_of_conf [1 / 2]"]
    severity_by_count [of float32_mean "results_of_conf [1 / 2, 1 / 2]"]
    severity_by_count [of float32_mean "results_of_conf [1 / 2, 1 / 2, 1 / 2, 1 / 2, 1 / 2]"]
    severity_by_count [of float32_mean
      "results_of_conf [1 / 2, 1 / 2, 1 / 2, 1 / 2, 1 / 2, 1 / 2]"]
  by (simp add: detections_results_of_conf)

text \<open>
  Claim C2. On an empty results list, or a first result whose boxes are absent or empty,
  the report has count 0, confidence 0.0, no plastic types, no bounding boxes, severity Low
  and the recommendation "No plastic detected".
\<close>

theorem no_detections_report:
  assumes "rs = [] \<or>
    (\<exists>res rest. rs = res # rest \<and>
       (boxes res = None \<or> (\<exists>bx. boxes res = Some bx \<and> boxes_len bx = 0)))"
  shows "detections (process_detection_results mean rs) = 0 \<and>
    confidence (process_detection_results mean rs) = 0 \<and>
    plastic_types (process_detection_results mean rs) = [] \<and>
    bounding_boxes (process_detection_results mean rs) = [] \<and>
    severity_str (severity (environmental_impact (process_detection_results mean rs))) =
      ''Low'' \<and>
    recommendation (environmental_impact (process_detection_results mean rs)) =
      ''No plastic detected''"
proof -
  from assms have "process_detection_results mean rs = no_plastic_report"
    by (auto simp: pdr_Nil pdr_no_boxes pdr_empty_boxes)
  then show ?thesis by (simp add: no_plastic_report_def)
qed

theorem no_detections_report_witness:
  "detections (process_detection_results float32_mean []) = 0 \<and>
   recommendation (environmental_impact
     (process_detection_results float32_mean [\<lparr>boxes = None\<rparr>])) = ''No plastic detected'' \<and>
   bounding_boxes (process_detection_results float32_mean (results_of_conf [])) = []"
  using no_detections_report [of "[]" float32_mean]
    no_detections_report [of "[\<lparr>boxes = None\<rparr>]" float32_mean]
    no_detections_report [of "results_of_conf []" float32_mean]
  by (simp add: results_of_conf_def)

text \<open>
  Claim C8. For every report with at least one detection the recommendation is fixed by
  the severity: one literal string for each of High, Medium and Low.
\<close>

theorem recommendation_by_severity:
  assumes "1 \<le> detections (process_detection_results mean rs)"
  shows "(severity (environmental_impact (process_detection_results mean rs)) = High \<longrightarrow>
      recommendation (environmental_impact (process_detection_results mean rs)) =
        ''Immediate cleanup required - High plastic pollution detected'') \<and>
    (severity (environmental_impact (process_detection_results mean rs)) = Medium \<longrightarrow>
      recommendation (environmental_impact (process_detection_results mean rs)) =
        ''Cleanup recommended - Moderate plastic pollution found'') \<and>
    (severity (environmental_impact (process_detection_results mean rs)) = Low \<longrightarrow>
      recommendation (environmental_impact (process_detection_results mean rs)) =
        ''Monitor area - Low level plastic pollution detected'')"
  using pdr_cases [of mean rs] assms
  by (elim disjE exE conjE) (simp_all add: no_plastic_report_def pdr_detected)

theorem recommendation_by_severity_witness:
  "recommendation (environmental_impact
      (process_detection_results float32_mean (results_of_conf [9 / 10]))) =
     ''Monitor area - Low level plastic pollution detected'' \<and>
   recommendation (environmental_impact
      (process_detection_results float32_mean (results_of_conf [9 / 10, 1 / 10]))) =
     ''Cleanup recommended - Moderate plastic pollution found'' \<and>
   recommendation (environmental_impact
      (process_detection_results float32_mean
         (results_of_conf [9 / 10, 1 / 10, 1 / 5, 2 / 5, 3 / 5, 4 / 5]))) =
     ''Immediate cleanup required - High plastic pollution detected''"
  using recommendation_by_severity [of float32_mean "results_of_conf [9 / 10]"]
    recommendation_by_severity [of float32_mean "results_of_conf [9 / 10, 1 / 10]"]
    recommendation_by_severity [of float32_mean
      "results_of_conf [9 / 10, 1 / 10, 1 / 5, 2 / 5, 3 / 5, 4 / 5]"]
  by (simp add: detections_results_of_conf severity_results_of_conf)

subsection \<open>Confidence and bounding boxes\<close>

text \<open>
  Claim C5, as stated: for every non-empty list of confidences the confidence of the report
  is the arithmetic mean of the confidences rounded to 2 decimal places. It fails where the
  binary32 mean and the arithmetic mean fall on different sides of a rounding boundary: the
  binary32 numbers 0.125 and 0.125 + \<open>2\<^sup>-\<^sup>2\<^sup>6\<close> add up to 0.25 in binary32, their mean
  is 0.125 and is rounded to 0.12, while their arithmetic mean is rounded to 0.13.
\<close>

theorem confidence_rounded_mean_counterexample:
  "confidence (process_detection_results float32_mean
      (results_of_conf [1 / 8, 1 / 8 + 1 / 67108864])) = 12 / 100 \<and>
   py_round2 (sum_list [1 / 8, 1 / 8 + 1 / 67108864] /
      of_nat (length [1 / 8, 1 / 8 + 1 / 67108864 :: rat])) = 13 / 100"
  by (simp add: confidence_results_of_conf float32_mean_values py_round2_values)

text \<open>
  Claim C5, amended. When the boxes are non-empty and their list of confidences is present
  and non-empty, the confidence of the report is the mean as \<open>np.mean\<close> computes it,
  rounded to 2 decimal places: a multiple of 1/100 within 1/200 of that mean. It is the
  arithmetic mean rounded to 2 decimal places whenever the arithmetic mean is closer to a
  multiple of 1/100 than 1/200 less the error of \<open>np.mean\<close>.
\<close>

theorem confidence_is_rounded_mean:
  assumes "rs = res # rest" and "boxes res = Some bx" and "0 < boxes_len bx"
    and "conf bx = Some cs" and "cs \<noteq> []"
  shows "confidence (process_detection_results mean rs) = py_round2 (mean cs) \<and>
    (\<exists>k::int. confidence (process_detection_results mean rs) = of_int k / 100) \<and>
    \<bar>confidence (process_detection_results mean rs) - mean cs\<bar> \<le> 1 / 200 \<and>
    (\<forall>(k::int) d.
       \<bar>mean cs - sum_list cs / of_nat (length cs)\<bar> \<le> d \<and>
       \<bar>sum_list cs / of_nat (length cs) - of_int k / 100\<bar> + d < 1 / 200 \<longrightarrow>
       confidence (process_detection_results mean rs) = of_int k / 100 \<and>
       py_round2 (sum_list cs / of_nat (length cs)) = of_int k / 100)"
proof -
  have c: "confidence (process_detection_results mean rs) = py_round2 (mean cs)"
    using assms by (simp add: pdr_detected)
  have "py_round2 (mean cs) = of_int k / 100 \<and>
      py_round2 (sum_list cs / of_nat (length cs)) = of_int k / 100"
    if "\<bar>mean cs - sum_list cs / of_nat (length cs)\<bar> \<le> d"
      and "\<bar>sum_list cs / of_nat (length cs) - of_int k / 100\<bar> + d < 1 / 200"
    for k :: int and d
  proof
    from that have "\<bar>mean cs - of_int k / 100\<bar> < 1 / 200" by linarith
    then show "py_round2 (mean cs) = of_int k / 100" by (rule py_round2_unique)
    from that have "\<bar>sum_list cs / of_nat (length cs) - of_int k / 100\<bar> < 1 / 200"
      by linarith
    then show "py_round2 (sum_list cs / of_nat (length cs)) = of_int k / 100"
      by (rule py_round2_unique)
  qed
  then show ?thesis
    unfolding c using py_round2_grid py_round2_near by blast
qed

text \<open>
  The confidences 0.3, 0.5, 0.9 give 0.57, and 0.4, 0.6, 0.8 give 0.60, with the binary32
  mean, which is within \<open>10\<^sup>-\<^sup>6\<close> of the arithmetic mean there.
\<close>

theorem confidence_is_rounded_mean_witness:
  "confidence (process_detection_results float32_mean
      (results_of_conf [3 / 10, 1 / 2, 9 / 10])) = 57 / 100 \<and>
   confidence (process_detection_results float32_mean
      (results_of_conf [2 / 5, 3 / 5, 4 / 5])) = 60 / 100 \<and>
   py_round2 (sum_list [3 / 10, 1 / 2, 9 / 10 :: rat] /
      of_nat (length [3 / 10, 1 / 2, 9 / 10 :: rat])) = 57 / 100 \<and>
   py_round2 (sum_list [2 / 5, 3 / 5, 4 / 5 :: rat] /
      of_nat (length [2 / 5, 3 / 5, 4 / 5 :: rat])) = 60 / 100"
proof -
  have ea: "\<bar>float32_mean [3 / 10, 1 / 2, 9 / 10] -
        sum_list [3 / 10, 1 / 2, 9 / 10 :: rat] /
          of_nat (length [3 / 10, 1 / 2, 9 / 10 :: rat])\<bar> \<le> 1 / 1000000 \<and>
    \<bar>sum_list [3 / 10, 1 / 2, 9 / 10 :: rat] / of_nat (length [3 / 10, 1 / 2, 9 / 10 :: rat]) -
        of_int 57 / 100\<bar> + 1 / 1000000 < 1 / 200"
    by (simp add: float32_mean_values)
  have eb: "\<bar>float32_mean [2 / 5, 3 / 5, 4 / 5] -
        sum_list [2 / 5, 3 / 5, 4 / 5 :: rat] /
          of_nat (length [2 / 5, 3 / 5, 4 / 5 :: rat])\<bar> \<le> 1 / 1000000 \<and>
    \<bar>sum_list [2 / 5, 3 / 5, 4 / 5 :: rat] / of_nat (length [2 / 5, 3 / 5, 4 / 5 :: rat]) -
        of_int 60 / 100\<bar> + 1 / 1000000 < 1 / 200"
    by (simp add: float32_mean_values)
  obtain res rest bx where a:
    "results_of_conf [3 / 10, 1 / 2, 9 / 10] = res # rest" "boxes res = Some bx"
    "0 < boxes_len bx" "conf bx = Some [3 / 10, 1 / 2, 9 / 10]"
    using results_of_conf_shape [of "[3 / 10, 1 / 2, 9 / 10]"] by auto
  obtain res' rest' bx' where b:
    "results_of_conf [2 / 5, 3 / 5, 4 / 5] = res' # rest'" "boxes res' = Some bx'"
    "0 < boxes_len bx'" "conf bx' = Some [2 / 5, 3 / 5, 4 / 5]"
    using results_of_conf_shape [of "[2 / 5, 3 / 5, 4 / 5]"] by auto
  have ne: "[3 / 10, 1 / 2, 9 / 10 :: rat] \<noteq> []" "[2 / 5, 3 / 5, 4 / 5 :: rat] \<noteq> []"
    by simp_all
  from confidence_is_rounded_mean [OF a ne(1), of float32_mean] ea
  have a': "confidence (process_detection_results float32_mean
        (results_of_conf [3 / 10, 1 / 2, 9 / 10])) = of_int 57 / 100 \<and>
      py_round2 (sum_list [3 / 10, 1 / 2, 9 / 10 :: rat] /
        of_nat (length [3 / 10, 1 / 2, 9 / 10 :: rat])) = of_int 57 / 100"
    by blast
  from confidence_is_rounded_mean [OF b ne(2), of float32_mean] eb
  have b': "confidence (process_detection_results float32_mean
        (results_of_conf [2 / 5, 3 / 5, 4 / 5])) = of_int 60 / 100 \<and>
      py_round2 (sum_list [2 / 5, 3 / 5, 4 / 5 :: rat] /
        of_nat (length [2 / 5, 3 / 5, 4 / 5 :: rat])) = of_int 60 / 100"
    by blast
  from a' b' show ?thesis by simp
qed




section \<open>Properties of the handlers\<close>

lemma predict_calls_save_upload [simp]:
  "predict_calls (save_upload n b w) = predict_calls w"
  by (simp add: save_upload_def)

lemma predict_calls_cleanup_upload [simp]:
  "predict_calls (cleanup_upload n w) = predict_calls w"
  by (simp add: cleanup_upload_def)

lemma upload_after_save [simp]:
  "upload_folder (fs (save_upload n b w)) n = Some b"
  by (simp add: save_upload_def)

lemma upload_after_cleanup [simp]:
  "upload_folder (fs (cleanup_upload n w)) n = None"
  by (simp add: cleanup_upload_def)

lemma model_predict_calls:
  "model_predict m args w = (r, w') \<Longrightarrow> predict_calls w' = predict_calls w @ [args]"
  by (auto simp: model_predict_def split: prod.splits)

text \<open>One turn of the loop, by the outcome of the detector.\<close>

lemma batch_loop_skip:
  "filename file = [] \<Longrightarrow>
   batch_loop e m bid ((i, file) # rest) acc w = batch_loop e m bid rest acc w"
  by simp

lemma batch_loop_raise:
  assumes "filename file \<noteq> []"
    and "model_predict m (batch_predict_args bid i)
           (save_upload (batch_file_id bid i @ ''.jpg'') (content file) w) = (Inl ex, w2)"
  shows "batch_loop e m bid ((i, file) # rest) acc w = (Inl ex, w2)"
  using assms by (simp add: batch_predict_args_def batch_file_id_def Let_def)

lemma batch_loop_step:
  assumes "filename file \<noteq> []"
    and "model_predict m (batch_predict_args bid i)
           (save_upload (batch_file_id bid i @ ''.jpg'') (content file) w) = (Inr rs, w2)"
  shows "batch_loop e m bid ((i, file) # rest) acc w =
     batch_loop e m bid rest
       (acc @ [\<lparr>i_filename = filename file, i_file_id = batch_file_id bid i,
                 i_results = process_detection_results (np_mean e) rs\<rparr>])
       (cleanup_upload (batch_file_id bid i @ ''.jpg'') w2)"
  using assms by (simp add: batch_predict_args_def batch_file_id_def Let_def)

lemma batch_loop_Inr:
  "batch_loop e m bid xs acc w = (Inr res, w') \<Longrightarrow>
   \<exists>items. res = acc @ items \<and>
     map i_filename items = map (filename \<circ> snd) (named_entries xs) \<and>
     map i_file_id items = map (batch_file_id bid \<circ> fst) (named_entries xs) \<and>
     predict_calls w' = predict_calls w @ map (batch_predict_args bid \<circ> fst) (named_entries xs)"
proof (induction xs arbitrary: acc w)
  case Nil
  then show ?case by (simp add: named_entries_def)
next
  case (Cons p xs)
  obtain i upl where p: "p = (i, upl)" by (cases p)
  show ?case
  proof (cases "filename upl = []")
    case True
    with Cons.prems p have "batch_loop e m bid xs acc w = (Inr res, w')" by simp
    from Cons.IH [OF this] True p show ?thesis by (simp add: named_entries_def)
  next
    case False
    let ?w1 = "save_upload (batch_file_id bid i @ ''.jpg'') (content upl) w"
    obtain r w2 where mp: "model_predict m (batch_predict_args bid i) ?w1 = (r, w2)"
      by (cases "model_predict m (batch_predict_args bid i) ?w1")
    have calls: "predict_calls w2 = predict_calls w @ [batch_predict_args bid i]"
      using model_predict_calls [OF mp] by simp
    show ?thesis
    proof (cases r)
      case (Inl ex)
      from batch_loop_raise [OF False mp [unfolded Inl]] Cons.prems [unfolded p]
      have "(Inl ex, w2) = (Inr res, w')" by (simp only:)
      then show ?thesis by simp
    next
      case (Inr rs)
      let ?item = "\<lparr>i_filename = filename upl, i_file_id = batch_file_id bid i,
                 i_results = process_detection_results (np_mean e) rs\<rparr>"
      have step: "batch_loop e m bid ((i, upl) # xs) acc w =
          batch_loop e m bid xs (acc @ [?item])
            (cleanup_upload (batch_file_id bid i @ ''.jpg'') w2)"
        by (rule batch_loop_step [OF False mp [unfolded Inr]])
      have "batch_loop e m bid xs (acc @ [?item])
              (cleanup_upload (batch_file_id bid i @ ''.jpg'') w2) = (Inr res, w')"
        using Cons.prems unfolding p step .
      from Cons.IH [OF this] obtain items where
        "res = (acc @ [?item]) @ items"
        "map i_filename items = map (filename \<circ> snd) (named_entries xs)"
        "map i_file_id items = map (batch_file_id bid \<circ> fst) (named_entries xs)"
        "predict_calls w' = predict_calls (cleanup_upload (batch_file_id bid i @ ''.jpg'') w2) @
           map (batch_predict_args bid \<circ> fst) (named_entries xs)"
        by blast
      with p False calls show ?thesis
        by (intro exI [of _ "?item # items"]) (simp add: named_entries_def)
    qed
  qed
qed

lemma batch_loop_total:
  assumes total: "\<And>a d. \<exists>rs d'. m a d = (Inr rs, d')"
  shows "\<exists>res w'. batch_loop e m bid xs acc w = (Inr res, w')"
proof (induction xs arbitrary: acc w)
  case Nil
  then show ?case by simp
next
  case (Cons p xs)
  obtain i upl where p: "p = (i, upl)" by (cases p)
  show ?case
  proof (cases "filename upl = []")
    case True
    with p Cons.IH [of acc w] show ?thesis by simp
  next
    case False
    let ?w1 = "save_upload (batch_file_id bid i @ ''.jpg'') (content upl) w"
    from total [of "batch_predict_args bid i" "fs ?w1"] obtain rs d' where
      "m (batch_predict_args bid i) (fs ?w1) = (Inr rs, d')" by blast
    then have "model_predict m (batch_predict_args bid i) ?w1 =
        (Inr rs, \<lparr>fs = d', predict_calls = predict_calls ?w1 @ [batch_predict_args bid i]\<rparr>)"
      by (simp add: model_predict_def)
    from batch_loop_step [OF False this] p Cons.IH show ?thesis by simp
  qed
qed

lemma batch_loop_calls:
  "batch_loop e m bid xs acc w = (r, w') \<Longrightarrow>
   \<exists>cs. predict_calls w' = predict_calls w @ cs \<and> (\<forall>a\<in>set cs. p_conf a = 1 / 4)"
proof (induction xs arbitrary: acc w)
  case Nil
  then show ?case by simp
next
  case (Cons p xs)
  obtain i upl where p: "p = (i, upl)" by (cases p)
  show ?case
  proof (cases "filename upl = []")
    case True
    with Cons.prems p have "batch_loop e m bid xs acc w = (r, w')" by simp
    from Cons.IH [OF this] show ?thesis .
  next
    case False
    let ?w1 = "save_upload (batch_file_id bid i @ ''.jpg'') (content upl) w"
    obtain r1 w2 where mp: "model_predict m (batch_predict_args bid i) ?w1 = (r1, w2)"
      by (cases "model_predict m (batch_predict_args bid i) ?w1")
    have calls: "predict_calls w2 = predict_calls w @ [batch_predict_args bid i]"
      using model_predict_calls [OF mp] by simp
    show ?thesis
    proof (cases r1)
      case (Inl ex)
      from batch_loop_raise [OF False mp [unfolded Inl]] Cons.prems [unfolded p]
      have "(Inl ex, w2) = (r, w')" by (simp only:)
      then have "w' = w2" by simp
      with calls show ?thesis by (simp add: batch_predict_args_def)
    next
      case (Inr rs)
      let ?item = "\<lparr>i_filename = filename upl, i_file_id = batch_file_id bid i,
                 i_results = process_detection_results (np_mean e) rs\<rparr>"
      have step: "batch_loop e m bid ((i, upl) # xs) acc w =
          batch_loop e m bid xs (acc @ [?item])
            (cleanup_upload (batch_file_id bid i @ ''.jpg'') w2)"
        by (rule batch_loop_step [OF False mp [unfolded Inr]])
      have "batch_loop e m bid xs (acc @ [?item])
              (cleanup_upload (batch_file_id bid i @ ''.jpg'') w2) = (r, w')"
        using Cons.prems unfolding p step .
      from Cons.IH [OF this] obtain cs where
        "predict_calls w' = predict_calls (cleanup_upload (batch_file_id bid i @ ''.jpg'') w2) @ cs"
        "\<forall>a\<in>set cs. p_conf a = 1 / 4"
        by blast
      with calls show ?thesis
        by (intro exI [of _ "batch_predict_args bid i # cs"]) (simp add: batch_predict_args_def)
    qed
  qed
qed

text \<open>
  The loop is the per-image steps run over the entries that are not skipped, the results
  appended to those already accumulated.
\<close>

lemma batch_loop_process_images:
  "batch_loop e m bid xs acc w =
     (case process_images e m bid (named_entries xs) w of
        (Inl ex, w') \<Rightarrow> (Inl ex, w')
      | (Inr items, w') \<Rightarrow> (Inr (acc @ items), w'))"
proof (induction xs arbitrary: acc w)
  case Nil
  then show ?case by (simp add: named_entries_def)
next
  case (Cons p xs)
  obtain i upl where p: "p = (i, upl)" by (cases p)
  show ?case
  proof (cases "filename upl = []")
    case True
    with p Cons.IH [of acc w] show ?thesis by (simp add: named_entries_def)
  next
    case False
    let ?w1 = "save_upload (batch_file_id bid i @ ''.jpg'') (content upl) w"
    obtain r w2 where mp: "model_predict m (batch_predict_args bid i) ?w1 = (r, w2)"
      by (cases "model_predict m (batch_predict_args bid i) ?w1")
    have ne: "named_entries ((i, upl) # xs) = (i, upl) # named_entries xs"
      using False by (simp add: named_entries_def)
    show ?thesis
    proof (cases r)
      case (Inl ex)
      have l: "batch_loop e m bid ((i, upl) # xs) acc w = (Inl ex, w2)"
        by (rule batch_loop_raise [OF False mp [unfolded Inl]])
      have "process_image e m bid (i, upl) w = (Inl ex, w2)"
        using mp Inl by (simp add: process_image_def)
      then have r: "process_images e m bid ((i, upl) # named_entries xs) w = (Inl ex, w2)"
        by simp
      show ?thesis unfolding p ne l r by simp
    next
      case (Inr rs)
      let ?item = "\<lparr>i_filename = filename upl, i_file_id = batch_file_id bid i,
                 i_results = process_detection_results (np_mean e) rs\<rparr>"
      let ?w3 = "cleanup_upload (batch_file_id bid i @ ''.jpg'') w2"
      have step: "batch_loop e m bid ((i, upl) # xs) acc w =
          batch_loop e m bid xs (acc @ [?item]) ?w3"
        by (rule batch_loop_step [OF False mp [unfolded Inr]])
      have "process_image e m bid (i, upl) w = (Inr ?item, ?w3)"
        using mp Inr by (simp add: process_image_def)
      then have r: "process_images e m bid ((i, upl) # named_entries xs) w =
          (case process_images e m bid (named_entries xs) ?w3 of
             (Inl ex, w4) \<Rightarrow> (Inl ex, w4)
           | (Inr items, w4) \<Rightarrow> (Inr (?item # items), w4))"
        by simp
      show ?thesis
        unfolding p ne step r Cons.IH [of "acc @ [?item]" ?w3]
        by (simp split: prod.splits sum.splits)
    qed
  qed
qed

lemma batch_loop_unnamed:
  "\<forall>p\<in>set xs. filename (snd p) = [] \<Longrightarrow> batch_loop e m bid xs acc w = (Inr acc, w)"
  by (induction xs) auto

subsection \<open>Single-image requests\<close>

text \<open>
  Claim C6. With the model loaded, a request without an \<open>image\<close> file field is answered
  with status 400 and the body \<open>{"error": "No image file provided"}\<close>, and a request
  whose image has an empty file name with status 400 and the body
  \<open>{"error": "No image file selected"}\<close>. In both cases the world is returned as it was:
  nothing is staged and \<open>model.predict\<close> is not called.
\<close>

theorem detect_plastic_validation:
  "(map_of (files req) ''image'' = None \<longrightarrow>
      detect_plastic e (Some m) req w =
        (\<lparr>status = 400, body = Error_body ''No image file provided''\<rparr>, w)) \<and>
   (\<forall>upl. map_of (files req) ''image'' = Some upl \<and> filename upl = '''' \<longrightarrow>
      detect_plastic e (Some m) req w =
        (\<lparr>status = 400, body = Error_body ''No image file selected''\<rparr>, w))"
  by (simp add: detect_plastic_def error_response_def)

theorem detect_plastic_validation_witness:
  "detect_plastic example_env (Some three_box_detector) no_image_request empty_world =
     (\<lparr>status = 400, body = Error_body ''No image file provided''\<rparr>, empty_world) \<and>
   detect_plastic example_env (Some three_box_detector) unnamed_image_request empty_world =
     (\<lparr>status = 400, body = Error_body ''No image file selected''\<rparr>, empty_world)"
  using detect_plastic_validation [of no_image_request example_env three_box_detector empty_world]
    detect_plastic_validation [of unnamed_image_request example_env three_box_detector empty_world]
  by (simp add: no_image_request_def unnamed_image_request_def)

text \<open>
  Claim C9. With the model loaded and a named image supplied, a \<open>confidence\<close> form value
  on which \<open>float\<close> raises gives no 400: the upload is staged first, the exception is
  caught, and the answer is status 500 with the message prefixed "Detection failed: ". The
  staged file stays in the upload directory and the detector is not called.
\<close>

theorem detect_plastic_bad_confidence:
  assumes "map_of (files req) ''image'' = Some upl" and "filename upl \<noteq> ''''"
    and "map_of (form req) ''confidence'' = Some s" and "py_float e s = Inl ex"
  shows "detect_plastic e (Some m) req w =
      (\<lparr>status = 500, body = Error_body (''Detection failed: '' @ str_exn ex)\<rparr>,
       save_upload (uuid4 e @ ''.jpg'') (content upl) w) \<and>
    upload_folder (fs (snd (detect_plastic e (Some m) req w))) (uuid4 e @ ''.jpg'') =
      Some (content upl) \<and>
    predict_calls (snd (detect_plastic e (Some m) req w)) = predict_calls w"
  using assms
  by (simp add: detect_plastic_def Let_def confidence_threshold_of_def detection_failed_def
      error_response_def)

theorem detect_plastic_bad_confidence_witness:
  "detect_plastic example_env (Some three_box_detector) bad_confidence_request empty_world =
     (\<lparr>status = 500,
       body = Error_body ''Detection failed: could not convert string to float: high''\<rparr>,
      save_upload ''id1.jpg'' ''JPEGDATA'' empty_world)"
  using detect_plastic_bad_confidence [of bad_confidence_request
      "\<lparr>filename = ''river.jpg'', content = ''JPEGDATA''\<rparr>" "''high''" example_env
      "Exception ''could not convert string to float: high''" three_box_detector empty_world]
  by (simp add: bad_confidence_request_def example_env_def)

text \<open>
  The clean-up on the path that answers 200: the staged file is gone afterwards.
\<close>

lemma detect_plastic_success_cleanup:
  assumes "detect_plastic e model req w = (r, w')" and "status r = 200"
  shows "upload_folder (fs w') (uuid4 e @ ''.jpg'') = None"
  using assms
  by (auto simp: detect_plastic_def Let_def error_response_def detection_failed_def
      split: option.splits if_splits sum.splits prod.splits)

text \<open>
  Claim C4 says that the staged upload is absent after a single-image request on the success
  path and on the failure path. On the failure path it is not: when the detector raises, the
  handler answers 500 and the staged file is still in the upload directory.
\<close>

theorem detect_plastic_failure_keeps_upload:
  "fst (detect_plastic example_env (Some failing_detector) image_request empty_world) =
     \<lparr>status = 500, body = Error_body ''Detection failed: cannot identify image file''\<rparr> \<and>
   upload_folder (fs (snd (detect_plastic example_env (Some failing_detector) image_request
     empty_world))) ''id1.jpg'' = Some ''JPEGDATA''"
  by (simp add: detect_plastic_def Let_def confidence_threshold_of_def detection_failed_def
      error_response_def image_request_def example_env_def failing_detector_def
      model_predict_def save_upload_def empty_world_def)

subsection \<open>Batch requests\<close>

text \<open>
  Claim C10. With the model loaded, a non-empty list of \<open>images\<close> in which every entry
  has an empty file name is answered with status 200, \<open>success\<close> true, 0 processed
  images and no results; the world is unchanged.
\<close>

theorem batch_detect_all_unnamed:
  assumes "getlist ''images'' (files req) \<noteq> []"
    and "\<forall>upl\<in>set (getlist ''images'' (files req)). filename upl = ''''"
  shows "batch_detect e (Some m) req w =
      (\<lparr>status = 200,
        body = Batch_body
          \<lparr>b_success = True, batch_id = uuid4 e, processed_images = 0, b_results = [],
           b_timestamp = now_isoformat e\<rparr>\<rparr>, w)"
proof -
  have "\<forall>p\<in>set (enumerate 0 (getlist ''images'' (files req))). filename (snd p) = []"
    using assms(2) by (auto simp: in_set_enumerate_eq)
  then have "batch_loop e m (uuid4 e) (enumerate 0 (getlist ''images'' (files req))) [] w =
      (Inr [], w)"
    by (rule batch_loop_unnamed)
  with assms(1) show ?thesis by (simp add: batch_detect_def Let_def)
qed

theorem batch_detect_all_unnamed_witness:
  "batch_detect example_env (Some three_box_detector) unnamed_batch_request empty_world =
     (\<lparr>status = 200,
       body = Batch_body
         \<lparr>b_success = True, batch_id = ''id1'', processed_images = 0, b_results = [],
          b_timestamp = ''2024-01-01T00:00:00''\<rparr>\<rparr>, empty_world)"
  using batch_detect_all_unnamed [of unnamed_batch_request example_env three_box_detector
      empty_world]
  by (simp add: unnamed_batch_request_def getlist_def example_env_def)

lemma batch_detect_form:
  "batch_detect e model (req\<lparr>form := fm\<rparr>) w = batch_detect e model req w"
  by (cases model) (simp_all add: batch_detect_def)

lemma named_entries_enumerate:
  "map (filename \<circ> snd) (named_entries (enumerate n fls)) =
     filter (\<lambda>s. s \<noteq> []) (map filename fls)"
  by (induction fls arbitrary: n) (simp_all add: named_entries_def)

lemma length_named_entries_enumerate:
  "length (named_entries (enumerate n fls)) = length (filter (\<lambda>upl. filename upl \<noteq> []) fls)"
  by (induction fls arbitrary: n) (simp_all add: named_entries_def)

text \<open>
  Claim C7. With the model loaded and a non-empty list of \<open>images\<close>: the answer does not
  depend on the form fields of the request, so a client-supplied threshold is ignored; every
  call the run makes to \<open>model.predict\<close> carries the threshold 0.25; when the detector
  raises on no image the answer has status 200; an answer with status 200 carries the
  batch identifier, \<open>processed_images\<close> equal to the number of entries with a non-empty
  file name, and as results exactly what the per-image steps (stage, detect at 0.25,
  normalize, delete the staged file) give on these entries in submission order, with the
  identifier built from the entry's index in the submitted list; and any other answer is the
  500 of an image on which the detector raised.
\<close>

theorem batch_detect_ordered:
  assumes "getlist ''images'' (files req) = fls" and "fls \<noteq> []"
  shows "batch_detect e (Some m) (req\<lparr>form := fm\<rparr>) w = batch_detect e (Some m) req w \<and>
    (\<exists>cs. predict_calls (snd (batch_detect e (Some m) req w)) = predict_calls w @ cs \<and>
       (\<forall>a\<in>set cs. p_conf a = 1 / 4)) \<and>
    ((\<forall>a d. \<exists>rs d'. m a d = (Inr rs, d')) \<longrightarrow>
       status (fst (batch_detect e (Some m) req w)) = 200) \<and>
    (status (fst (batch_detect e (Some m) req w)) = 200 \<longrightarrow>
       (\<exists>b. body (fst (batch_detect e (Some m) req w)) = Batch_body b \<and>
          b_success b \<and> batch_id b = uuid4 e \<and>
          processed_images b = length (filter (\<lambda>upl. filename upl \<noteq> '''') fls) \<and>
          length (b_results b) = processed_images b \<and>
          map i_filename (b_results b) = filter (\<lambda>s. s \<noteq> '''') (map filename fls) \<and>
          map i_file_id (b_results b) =
            map (batch_file_id (uuid4 e) \<circ> fst) (named_entries (enumerate 0 fls)) \<and>
          predict_calls (snd (batch_detect e (Some m) req w)) =
            predict_calls w @
            map (batch_predict_args (uuid4 e) \<circ> fst) (named_entries (enumerate 0 fls)) \<and>
          process_images e m (uuid4 e) (named_entries (enumerate 0 fls)) w =
            (Inr (b_results b), snd (batch_detect e (Some m) req w)))) \<and>
    (status (fst (batch_detect e (Some m) req w)) \<noteq> 200 \<longrightarrow>
       (\<exists>ex. process_images e m (uuid4 e) (named_entries (enumerate 0 fls)) w =
            (Inl ex, snd (batch_detect e (Some m) req w)) \<and>
          fst (batch_detect e (Some m) req w) =
            \<lparr>status = 500,
             body = Error_body (''Batch processing failed: '' @ str_exn ex)\<rparr>))"
proof -
  obtain r w' where loop: "batch_loop e m (uuid4 e) (enumerate 0 fls) [] w = (r, w')"
    by (cases "batch_loop e m (uuid4 e) (enumerate 0 fls) [] w")
  have bd: "batch_detect e (Some m) req w =
      (case r of
         Inl ex \<Rightarrow> (error_response 500 (''Batch processing failed: '' @ str_exn ex), w')
       | Inr batch_results \<Rightarrow>
           (\<lparr>status = 200,
             body = Batch_body
               \<lparr>b_success = True, batch_id = uuid4 e,
                processed_images = length batch_results,
                b_results = batch_results,
                b_timestamp = now_isoformat e\<rparr>\<rparr>, w'))"
    using assms loop by (simp add: batch_detect_def Let_def)
  have w': "snd (batch_detect e (Some m) req w) = w'"
    unfolding bd by (cases r) simp_all
  have pi: "process_images e m (uuid4 e) (named_entries (enumerate 0 fls)) w = (r, w')"
    using loop unfolding batch_loop_process_images
    by (auto split: prod.splits sum.splits)
  have one: "batch_detect e (Some m) (req\<lparr>form := fm\<rparr>) w = batch_detect e (Some m) req w"
    by (rule batch_detect_form)
  have two: "\<exists>cs. predict_calls (snd (batch_detect e (Some m) req w)) = predict_calls w @ cs \<and>
       (\<forall>a\<in>set cs. p_conf a = 1 / 4)"
    unfolding w' using batch_loop_calls [OF loop] .
  have three: "status (fst (batch_detect e (Some m) req w)) = 200"
    if total: "\<forall>a d. \<exists>rs d'. m a d = (Inr rs, d')"
  proof -
    from total have "\<exists>res w''. batch_loop e m (uuid4 e) (enumerate 0 fls) [] w = (Inr res, w'')"
      by (intro batch_loop_total) blast
    with loop obtain res where "r = Inr res" by auto
    then show ?thesis unfolding bd by simp
  qed
  have four: "\<exists>b. body (fst (batch_detect e (Some m) req w)) = Batch_body b \<and>
          b_success b \<and> batch_id b = uuid4 e \<and>
          processed_images b = length (filter (\<lambda>upl. filename upl \<noteq> '''') fls) \<and>
          length (b_results b) = processed_images b \<and>
          map i_filename (b_results b) = filter (\<lambda>s. s \<noteq> '''') (map filename fls) \<and>
          map i_file_id (b_results b) =
            map (batch_file_id (uuid4 e) \<circ> fst) (named_entries (enumerate 0 fls)) \<and>
          predict_calls (snd (batch_detect e (Some m) req w)) =
            predict_calls w @
            map (batch_predict_args (uuid4 e) \<circ> fst) (named_entries (enumerate 0 fls)) \<and>
          process_images e m (uuid4 e) (named_entries (enumerate 0 fls)) w =
            (Inr (b_results b), snd (batch_detect e (Some m) req w))"
    if ok: "status (fst (batch_detect e (Some m) req w)) = 200"
  proof -
    from ok obtain res where r: "r = Inr res"
      unfolding bd by (cases r) (simp_all add: error_response_def)
    from batch_loop_Inr [OF loop [unfolded r]] obtain items where items:
      "res = [] @ items"
      "map i_filename items = map (filename \<circ> snd) (named_entries (enumerate 0 fls))"
      "map i_file_id items = map (batch_file_id (uuid4 e) \<circ> fst) (named_entries (enumerate 0 fls))"
      "predict_calls w' = predict_calls w @
         map (batch_predict_args (uuid4 e) \<circ> fst) (named_entries (enumerate 0 fls))"
      by blast
    have len: "length items = length (filter (\<lambda>upl. filename upl \<noteq> []) fls)"
      using arg_cong [OF items(2), of length]
      by (simp add: length_named_entries_enumerate)
    show ?thesis
      unfolding w' unfolding bd r
      using items len pi [unfolded r] by (simp add: named_entries_enumerate)
  qed
  have five: "\<exists>ex. process_images e m (uuid4 e) (named_entries (enumerate 0 fls)) w =
            (Inl ex, snd (batch_detect e (Some m) req w)) \<and>
          fst (batch_detect e (Some m) req w) =
            \<lparr>status = 500,
             body = Error_body (''Batch processing failed: '' @ str_exn ex)\<rparr>"
    if bad: "status (fst (batch_detect e (Some m) req w)) \<noteq> 200"
  proof -
    from bad obtain ex where r: "r = Inl ex"
      unfolding bd by (cases r) simp_all
    show ?thesis
      unfolding w' unfolding bd r
      using pi [unfolded r] by (simp add: error_response_def)
  qed
  from one two three four five show ?thesis by blast
qed

text \<open>
  Two named images around an entry with an empty file name, and a detector that finds three
  boxes in each.
\<close>

theorem batch_detect_ordered_witness:
  "(\<exists>b. body (fst (batch_detect example_env (Some three_box_detector) batch_request
           empty_world)) = Batch_body b \<and>
      processed_images b = 2 \<and>
      map i_filename (b_results b) = [''a.jpg'', ''b.jpg''] \<and>
      map i_file_id (b_results b) = [''id1_0'', ''id1_2''] \<and>
      map (detections \<circ> i_results) (b_results b) = [3, 3]) \<and>
   map p_conf (predict_calls (snd (batch_detect example_env (Some three_box_detector)
     batch_request empty_world))) = [1 / 4, 1 / 4]"
proof -
  have g: "getlist ''images'' (files batch_request) =
      [\<lparr>filename = ''a.jpg'', content = ''AAA''\<rparr>, \<lparr>filename = [], content = []\<rparr>,
       \<lparr>filename = ''b.jpg'', content = ''BBB''\<rparr>]"
    by (simp add: batch_request_def getlist_def)
  have ne: "[\<lparr>filename = ''a.jpg'', content = ''AAA''\<rparr>, \<lparr>filename = [], content = []\<rparr>,
       \<lparr>filename = ''b.jpg'', content = ''BBB''\<rparr>] \<noteq> []"
    by simp
  have total: "\<forall>a d. \<exists>rs d'. three_box_detector a d = (Inr rs, d')"
    by (simp add: three_box_detector_def)
  have s0: "str_nat 0 = ''0''" and s2: "str_nat 2 = ''2''"
    by code_simp+
  have entries: "named_entries (enumerate 0
      [\<lparr>filename = ''a.jpg'', content = ''AAA''\<rparr>, \<lparr>filename = [], content = []\<rparr>,
       \<lparr>filename = ''b.jpg'', content = ''BBB''\<rparr>]) =
      [(0, \<lparr>filename = ''a.jpg'', content = ''AAA''\<rparr>),
       (2, \<lparr>filename = ''b.jpg'', content = ''BBB''\<rparr>)]"
    by (simp add: named_entries_def)
  have u: "uuid4 example_env = ''id1''"
    by (simp add: example_env_def)
  have items: "\<exists>x y. fst (process_images example_env three_box_detector ''id1''
      [(0, \<lparr>filename = ''a.jpg'', content = ''AAA''\<rparr>),
       (2, \<lparr>filename = ''b.jpg'', content = ''BBB''\<rparr>)] empty_world) = Inr [x, y] \<and>
      detections (i_results x) = 3 \<and> detections (i_results y) = 3"
    by (simp add: process_image_def model_predict_def three_box_detector_def Let_def
        detections_results_of_conf)
  let ?run = "batch_detect example_env (Some three_box_detector) batch_request empty_world"
  note run = batch_detect_ordered [OF g ne, of example_env three_box_detector "[]" empty_world]
  from run total have "status (fst ?run) = 200"
    by blast
  with run obtain b where b: "body (fst ?run) = Batch_body b"
    "processed_images b =
       length (filter (\<lambda>upl. filename upl \<noteq> [])
         [\<lparr>filename = ''a.jpg'', content = ''AAA''\<rparr>, \<lparr>filename = [], content = []\<rparr>,
          \<lparr>filename = ''b.jpg'', content = ''BBB''\<rparr>])"
    "map i_filename (b_results b) =
       filter (\<lambda>s. s \<noteq> []) (map filename
         [\<lparr>filename = ''a.jpg'', content = ''AAA''\<rparr>, \<lparr>filename = [], content = []\<rparr>,
          \<lparr>filename = ''b.jpg'', content = ''BBB''\<rparr>])"
    "map i_file_id (b_results b) =
       map (batch_file_id (uuid4 example_env) \<circ> fst) (named_entries (enumerate 0
         [\<lparr>filename = ''a.jpg'', content = ''AAA''\<rparr>, \<lparr>filename = [], content = []\<rparr>,
          \<lparr>filename = ''b.jpg'', content = ''BBB''\<rparr>]))"
    "predict_calls (snd ?run) =
       predict_calls empty_world @
       map (batch_predict_args (uuid4 example_env) \<circ> fst) (named_entries (enumerate 0
         [\<lparr>filename = ''a.jpg'', content = ''AAA''\<rparr>, \<lparr>filename = [], content = []\<rparr>,
          \<lparr>filename = ''b.jpg'', content = ''BBB''\<rparr>]))"
    "process_images example_env three_box_detector (uuid4 example_env)
       (named_entries (enumerate 0
         [\<lparr>filename = ''a.jpg'', content = ''AAA''\<rparr>, \<lparr>filename = [], content = []\<rparr>,
          \<lparr>filename = ''b.jpg'', content = ''BBB''\<rparr>])) empty_world =
       (Inr (b_results b), snd ?run)"
    by blast
  have calls: "map p_conf (predict_calls (snd ?run)) = [1 / 4, 1 / 4]"
    unfolding b(5) entries by (simp add: empty_world_def batch_predict_args_def)
  have ids: "map i_file_id (b_results b) = [''id1_0'', ''id1_2'']"
    unfolding b(4) entries u by (simp add: batch_file_id_def s0 s2)
  have dets: "map (detections \<circ> i_results) (b_results b) = [3, 3]"
    using items b(6) [unfolded entries u] by auto
  from b(1) b(2) b(3) ids calls dets show ?thesis
    by simp
qed

end
